theory Spec2Isabelle
  imports Complex_Main "HOL-Library.Sublist"
begin

section \<open>Values of the GUI toolkit\<close>

text \<open>
  Both variants of the viewer (\<^verbatim>\<open>src/4ref.py\<close> and \<^verbatim>\<open>src/Ref.py\<close>) are one class,
  \<^verbatim>\<open>TextBasedImageViewer\<close>, whose handlers read and write the fields of \<^verbatim>\<open>self\<close> and call
  into the toolkit (sizes, pixmaps, the label, the slider), the HTTP library and the clipboard.
  The handlers are embedded as functions from the viewer's state to its new state; the
  outside world is a record of functions passed to every handler.

  Python strings are modelled as \<^typ>\<open>string\<close>, byte strings likewise, Python integers
  and the toolkit's integers as \<^typ>\<open>int\<close> (the toolkit multiplies sizes in 64 bits, so
  no product of two pixel dimensions wraps).
\<close>

type_synonym bytes = string

datatype QSize = QSize (width: int) (height: int)

text \<open>\<^verbatim>\<open>QSize.isEmpty()\<close>: either dimension is less than one.\<close>

definition isEmpty :: "QSize \<Rightarrow> bool" where
  "isEmpty s = (width s < 1 \<or> height s < 1)"

text \<open>
  A pixmap is either the null pixmap (\<^verbatim>\<open>QPixmap()\<close>, of size 0 by 0) or a pixel buffer
  with its width and height. The pixel data itself is kept abstract (\<open>'px\<close>).
\<close>

datatype 'px QPixmap = NullPixmap | Pixmap int int 'px

fun pixmap_width :: "'px QPixmap \<Rightarrow> int" where
  "pixmap_width NullPixmap = 0"
| "pixmap_width (Pixmap w h d) = w"

fun pixmap_height :: "'px QPixmap \<Rightarrow> int" where
  "pixmap_height NullPixmap = 0"
| "pixmap_height (Pixmap w h d) = h"

definition isNull :: "'px QPixmap \<Rightarrow> bool" where
  "isNull p = (pixmap_width p \<le> 0 \<or> pixmap_height p \<le> 0)"

text \<open>What the image label shows: a text or a pixmap, never both.\<close>

datatype 'px label_content = LabelText string | LabelPixmap "'px QPixmap"

text \<open>A dropped URL: \<^verbatim>\<open>toLocalFile()\<close> is the path of a local file and empty otherwise.\<close>

datatype QUrl = LocalFile string | OtherUrl string

fun toLocalFile :: "QUrl \<Rightarrow> string" where
  "toLocalFile (LocalFile p) = p"
| "toLocalFile (OtherUrl u) = []"

section \<open>The outside world\<close>

text \<open>
  \<^item> \<open>clipboard_text\<close>: \<^verbatim>\<open>QGuiApplication.clipboard().text()\<close>;
  \<^item> \<open>http_get url\<close>: the three lines \<^verbatim>\<open>requests.get(url)\<close>,
    \<^verbatim>\<open>response.raise_for_status()\<close>, \<^verbatim>\<open>response.content\<close>: either one of the two calls
    raises (\<open>Inl\<close>, with the text of the exception) or the body is returned (\<open>Inr\<close>);
  \<^item> \<open>pixmap_from_data\<close>: the pixmap left in \<^verbatim>\<open>pixmap\<close> by
    \<^verbatim>\<open>pixmap = QPixmap(); pixmap.loadFromData(data)\<close>. The call does not raise: on bytes
    that are no image it returns \<^verbatim>\<open>False\<close> and leaves the null pixmap;
  \<^item> \<open>pixmap_from_file\<close>: \<^verbatim>\<open>QPixmap(file_path)\<close>, the null pixmap when the file cannot
    be read or decoded (the constructor does not raise either);
  \<^item> \<open>smooth_transform d w h\<close>: the pixel data \<open>d\<close> resampled to \<open>w\<close> by \<open>h\<close> with
    \<^verbatim>\<open>Qt.SmoothTransformation\<close>;
  \<^item> \<open>label_area\<close>: the size the layout gives the image label for a window size, read by
    \<^verbatim>\<open>self.image_label.size()\<close>. The label's size hints are overridden to 0 by 0
    (\<^verbatim>\<open>ImageLabel\<close>), so its size does not depend on what it shows.
\<close>

record 'px env =
  clipboard_text :: string
  http_get :: "string \<Rightarrow> string + bytes"
  pixmap_from_data :: "bytes \<Rightarrow> 'px QPixmap"
  pixmap_from_file :: "string \<Rightarrow> 'px QPixmap"
  smooth_transform :: "'px \<Rightarrow> int \<Rightarrow> int \<Rightarrow> 'px"
  label_area :: "QSize \<Rightarrow> QSize"

text \<open>\<^verbatim>\<open>pixmap.loadFromData(data)\<close> on a fresh pixmap: the flag and the pixmap.\<close>

definition loadFromData :: "'px env \<Rightarrow> bytes \<Rightarrow> bool \<times> 'px QPixmap" where
  "loadFromData env d = (let p = pixmap_from_data env d in (\<not> isNull p, p))"

section \<open>Scaling with the aspect ratio kept\<close>

text \<open>
  Modelled from the spec: the toolkit's \<^verbatim>\<open>QSize.scaled(s, Qt.KeepAspectRatio)\<close> is not
  under \<^verbatim>\<open>src/\<close>. Section 4.3: the new dimensions are the largest pair fitting within the
  target box with the ratio of the source; the integer rounding is truncation. The
  candidate width for the full target height is tried first; when it does not fit, the
  full target width is used.
\<close>

definition size_scaled :: "QSize \<Rightarrow> QSize \<Rightarrow> QSize" where
  "size_scaled sz s =
     (if width sz = 0 \<or> height sz = 0 then s
      else
        let rw = height s * width sz div height sz
        in if rw \<le> width s then QSize rw (height s)
           else QSize (width s) (width s * height sz div width sz))"

text \<open>
  Modelled from the spec: the toolkit's
  \<^verbatim>\<open>QPixmap.scaled(s, Qt.KeepAspectRatio, Qt.SmoothTransformation)\<close> is not under
  \<^verbatim>\<open>src/\<close>. Section 4.3: the pixmap is scaled to the largest size of its own ratio within
  the box \<open>s\<close>, with the smoothing filter. A null pixmap and an empty box give the null
  pixmap, no side of the result is less than one pixel, and a pixmap that already has the
  new size is returned as it is.
\<close>

definition scaled :: "'px env \<Rightarrow> 'px QPixmap \<Rightarrow> QSize \<Rightarrow> 'px QPixmap" where
  "scaled env p s =
     (case p of
        NullPixmap \<Rightarrow> NullPixmap
      | Pixmap w h d \<Rightarrow>
          if w \<le> 0 \<or> h \<le> 0 then NullPixmap
          else if isEmpty s then NullPixmap
          else
            let n = size_scaled (QSize w h) s;
                nw = max (width n) 1;
                nh = max (height n) 1
            in if nw = w \<and> nh = h then p
               else Pixmap nw nh (smooth_transform env d nw nh))"

section \<open>The viewer's state\<close>

text \<open>
  The fields of \<^verbatim>\<open>self\<close> that the handlers touch. \<open>stays_on_top_hint\<close> is the
  \<^verbatim>\<open>Qt.WindowStaysOnTopHint\<close> bit of the window flags, \<open>window_size\<close> the size of the
  main window, \<open>opacity_slider\<close> the value of the slider, \<open>toggle_top_button\<close> the caption
  of the toggle button. \<open>net_log\<close> is not a field of the class: it records, in order, the
  URLs for which an HTTP request was issued.
\<close>

record 'px viewer =
  url_input :: string
  image_label :: "'px label_content"
  original_pixmap :: "'px QPixmap option"
  scaled_pixmap :: "'px QPixmap option"
  is_on_top :: bool
  stays_on_top_hint :: bool
  window_size :: QSize
  window_opacity :: real
  opacity_slider :: int
  opacity_label :: string
  toggle_top_button :: string
  net_log :: "string list"

section \<open>Scale to fit\<close>

text \<open>\<^verbatim>\<open>update_image\<close> of \<^verbatim>\<open>src/4ref.py\<close>.\<close>

definition update_image :: "'px env \<Rightarrow> 'px viewer \<Rightarrow> 'px viewer" where
  "update_image env self =
     (case original_pixmap self of
        None \<Rightarrow> self
      | Some orig \<Rightarrow>
          let max_size = QSize 800 800;
              capped =
                (if pixmap_width orig > width max_size \<or> pixmap_height orig > height max_size
                 then scaled env orig max_size
                 else orig);
              self1 = self\<lparr>scaled_pixmap := Some capped\<rparr>;
              label_size = label_area env (window_size self1)
          in if width label_size > 0 \<and> height label_size > 0
             then self1\<lparr>image_label := LabelPixmap (scaled env capped label_size)\<rparr>
             else self1\<lparr>image_label := LabelPixmap capped\<rparr>)"

text \<open>\<^verbatim>\<open>update_image\<close> of \<^verbatim>\<open>src/Ref.py\<close>.\<close>

definition Ref_update_image :: "'px env \<Rightarrow> 'px viewer \<Rightarrow> 'px viewer" where
  "Ref_update_image env self =
     (case original_pixmap self of
        None \<Rightarrow> self
      | Some orig \<Rightarrow>
          let max_size = QSize 800 800;
              capped =
                (if pixmap_width orig > width max_size \<or> pixmap_height orig > height max_size
                 then scaled env orig max_size
                 else orig);
              self1 = self\<lparr>scaled_pixmap := Some capped\<rparr>;
              label_size = label_area env (window_size self1)
          in if width label_size > 0 \<and> height label_size > 0
             then self1\<lparr>image_label := LabelPixmap (scaled env capped label_size)\<rparr>
             else self1\<lparr>image_label := LabelPixmap capped\<rparr>)"

section \<open>Strings\<close>

text \<open>
  Python's \<^verbatim>\<open>str(n)\<close> of an integer, as the f-strings of the handlers format it:
  decimal digits, most significant first, with a minus sign for a negative number.
\<close>

definition digit_char :: "nat \<Rightarrow> char" where
  "digit_char d = char_of (48 + d)"

function str_nat :: "nat \<Rightarrow> string" where
  "str_nat n = (if n < 10 then [digit_char n] else str_nat (n div 10) @ [digit_char (n mod 10)])"
  by pat_completeness auto
termination
  by (relation "measure (\<lambda>n. n)") auto

declare str_nat.simps [simp del]

definition str_int :: "int \<Rightarrow> string" where
  "str_int i = (if i < 0 then CHR ''-'' # str_nat (nat (- i)) else str_nat (nat i))"

text \<open>
  \<^verbatim>\<open>str.lower()\<close> on the letters \<open>A\<close> to \<open>Z\<close>; every other character of the model's
  strings is left as it is. \<^verbatim>\<open>str.endswith(ext)\<close> compares the last characters.
\<close>

definition lower_char :: "char \<Rightarrow> char" where
  "lower_char c =
     (let n = (of_char c :: nat) in if 65 \<le> n \<and> n \<le> 90 then char_of (n + 32) else c)"

definition lower :: "string \<Rightarrow> string" where
  "lower s = map lower_char s"

definition endswith :: "string \<Rightarrow> string \<Rightarrow> bool" where
  "endswith s ext = (length ext \<le> length s \<and> drop (length s - length ext) s = ext)"

section \<open>The handlers of \<^verbatim>\<open>src/4ref.py\<close>\<close>

text \<open>
  \<^verbatim>\<open>load_image_from_url\<close>: the whole body is inside \<^verbatim>\<open>try\<close>; only the HTTP lines can
  raise. The flag returned by \<^verbatim>\<open>loadFromData\<close> is dropped, as in the source.
\<close>

definition load_image_from_url :: "'px env \<Rightarrow> 'px viewer \<Rightarrow> 'px viewer" where
  "load_image_from_url env self =
     (let url = url_input self;
          self1 = self\<lparr>net_log := net_log self @ [url]\<rparr>
      in case http_get env url of
           Inl e \<Rightarrow> self1\<lparr>image_label := LabelText (''Error loading image: '' @ e)\<rparr>
         | Inr img_data \<Rightarrow>
             let pixmap = snd (loadFromData env img_data)
             in update_image env (self1\<lparr>original_pixmap := Some pixmap\<rparr>))"

text \<open>
  \<^verbatim>\<open>resizeEvent\<close> recomputes the image; the inherited handler changes no field.
  \<open>resize\<close> is the window taking a new size (by the user or by \<^verbatim>\<open>self.resize(w, h)\<close>),
  which delivers the resize event.
\<close>

definition resizeEvent :: "'px env \<Rightarrow> 'px viewer \<Rightarrow> 'px viewer" where
  "resizeEvent env self = update_image env self"

definition resize :: "'px env \<Rightarrow> QSize \<Rightarrow> 'px viewer \<Rightarrow> 'px viewer" where
  "resize env sz self = resizeEvent env (self\<lparr>window_size := sz\<rparr>)"

definition change_opacity :: "'px viewer \<Rightarrow> 'px viewer" where
  "change_opacity self =
     (let v = opacity_slider self;
          opacity = real_of_int v / 100
      in self\<lparr>window_opacity := opacity,
               opacity_label := ''Window Opacity: '' @ str_int v @ ''%''\<rparr>)"

text \<open>
  \<^verbatim>\<open>opacity_slider.setValue(v)\<close>: the slider keeps the value within its range, 10 to 100
  (set in the constructor), and signals \<^verbatim>\<open>valueChanged\<close>, connected to
  \<^verbatim>\<open>change_opacity\<close>, when the value differs from the old one.
\<close>

definition slider_setValue :: "int \<Rightarrow> 'px viewer \<Rightarrow> 'px viewer" where
  "slider_setValue v self =
     (let v' = max 10 (min 100 v)
      in if v' = opacity_slider self then self
         else change_opacity (self\<lparr>opacity_slider := v'\<rparr>))"

definition toggle_on_top :: "'px viewer \<Rightarrow> 'px viewer" where
  "toggle_on_top self =
     (let self1 =
            (if is_on_top self
             then self\<lparr>stays_on_top_hint := False,
                       toggle_top_button := ''Toggle Always-on-Top (OFF)''\<rparr>
             else self\<lparr>stays_on_top_hint := True,
                       toggle_top_button := ''Toggle Always-on-Top (ON)''\<rparr>)
      in self1\<lparr>is_on_top := \<not> is_on_top self1\<rparr>)"

definition image_extensions :: "string list" where
  "image_extensions = [''.png'', ''.jpg'', ''.jpeg'', ''.gif'', ''.svg'']"

definition auto_fetch_url_from_clipboard :: "'px env \<Rightarrow> 'px viewer \<Rightarrow> 'px viewer" where
  "auto_fetch_url_from_clipboard env self =
     (let url = clipboard_text env
      in if list_ex (\<lambda>ext. endswith (lower url) ext) image_extensions
         then load_image_from_url env (self\<lparr>url_input := url\<rparr>)
         else self)"

text \<open>
  \<^verbatim>\<open>reset_app\<close>, statement by statement. \<^verbatim>\<open>show()\<close> re-applies the window flags and
  changes no field of the model.
\<close>

definition reset_app :: "'px env \<Rightarrow> 'px viewer \<Rightarrow> 'px viewer" where
  "reset_app env self =
     (let s1 = self\<lparr>url_input := []\<rparr>;
          s2 = s1\<lparr>image_label := LabelText []\<rparr>;
          s3 = s2\<lparr>image_label := LabelText ''Drag and Drop an Image Here''\<rparr>;
          s4 = s3\<lparr>original_pixmap := None\<rparr>;
          s5 = s4\<lparr>scaled_pixmap := None\<rparr>;
          s6 = s5\<lparr>stays_on_top_hint := False\<rparr>;
          s7 = resize env (QSize 480 360) s6;
          s8 = s7\<lparr>is_on_top := False\<rparr>;
          s9 = s8\<lparr>window_opacity := 1\<rparr>;
          s10 = slider_setValue 100 s9
      in s10\<lparr>opacity_label := ''Window Opacity: 100%''\<rparr>)"

text \<open>
  The fields as the constructor sets them, before its last statement, and the
  constructor itself, which ends with \<^verbatim>\<open>auto_fetch_url_from_clipboard\<close>.
\<close>

definition new_viewer :: "'px viewer" where
  "new_viewer =
     \<lparr>url_input = [],
      image_label = LabelText ''Drag and Drop an Image Here'',
      original_pixmap = None,
      scaled_pixmap = None,
      is_on_top = False,
      stays_on_top_hint = False,
      window_size = QSize 480 360,
      window_opacity = 1,
      opacity_slider = 100,
      opacity_label = ''Window Opacity: 100%'',
      toggle_top_button = ''Toggle Always-on-Top'',
      net_log = []\<rparr>"

definition init :: "'px env \<Rightarrow> 'px viewer" where
  "init env = auto_fetch_url_from_clipboard env new_viewer"

text \<open>
  Drag and drop. \<^verbatim>\<open>dragEnterEvent\<close> accepts the drag when the payload has URLs; a drop is
  delivered only for an accepted drag. \<^verbatim>\<open>urls()[0]\<close> on an empty list raises.
\<close>

datatype py_error = IndexError

definition dragEnterEvent :: "QUrl list \<Rightarrow> bool" where
  "dragEnterEvent urls = (urls \<noteq> [])"

definition dropEvent :: "'px env \<Rightarrow> QUrl list \<Rightarrow> 'px viewer \<Rightarrow> py_error + 'px viewer" where
  "dropEvent env urls self =
     (case urls of
        [] \<Rightarrow> Inl IndexError
      | u # rest \<Rightarrow>
          let file_path = toLocalFile u;
              pixmap = pixmap_from_file env file_path
          in Inr (update_image env (self\<lparr>original_pixmap := Some pixmap\<rparr>)))"

definition drop_received :: "'px env \<Rightarrow> QUrl list \<Rightarrow> 'px viewer \<Rightarrow> py_error + 'px viewer" where
  "drop_received env urls self =
     (if dragEnterEvent urls then dropEvent env urls self else Inr self)"

section \<open>The handlers of \<^verbatim>\<open>src/Ref.py\<close> that differ\<close>

text \<open>
  \<^verbatim>\<open>src/Ref.py\<close> has the same handlers, statement for statement, except for the default
  window size, 400 by 300, in the constructor and in \<^verbatim>\<open>reset_app\<close>.
\<close>

definition Ref_resize :: "'px env \<Rightarrow> QSize \<Rightarrow> 'px viewer \<Rightarrow> 'px viewer" where
  "Ref_resize env sz self = Ref_update_image env (self\<lparr>window_size := sz\<rparr>)"

definition Ref_reset_app :: "'px env \<Rightarrow> 'px viewer \<Rightarrow> 'px viewer" where
  "Ref_reset_app env self =
     (let s1 = self\<lparr>url_input := []\<rparr>;
          s2 = s1\<lparr>image_label := LabelText []\<rparr>;
          s3 = s2\<lparr>image_label := LabelText ''Drag and Drop an Image Here''\<rparr>;
          s4 = s3\<lparr>original_pixmap := None\<rparr>;
          s5 = s4\<lparr>scaled_pixmap := None\<rparr>;
          s6 = s5\<lparr>stays_on_top_hint := False\<rparr>;
          s7 = Ref_resize env (QSize 400 300) s6;
          s8 = s7\<lparr>is_on_top := False\<rparr>;
          s9 = s8\<lparr>window_opacity := 1\<rparr>;
          s10 = slider_setValue 100 s9
      in s10\<lparr>opacity_label := ''Window Opacity: 100%''\<rparr>)"

definition Ref_new_viewer :: "'px viewer" where
  "Ref_new_viewer = new_viewer\<lparr>window_size := QSize 400 300\<rparr>"

section \<open>The display state of the specification\<close>

text \<open>
  The specification's \<^emph>\<open>original\<close> is \<open>original_pixmap\<close>, its \<^emph>\<open>capped\<close> bitmap is
  \<open>scaled_pixmap\<close>, and its \<^emph>\<open>fit\<close> bitmap is the pixmap handed to the image label: the
  source keeps it nowhere else. The display area is the size of the image label.
\<close>

definition fit_bitmap :: "'px viewer \<Rightarrow> 'px QPixmap option" where
  "fit_bitmap self = (case image_label self of LabelText t \<Rightarrow> None | LabelPixmap p \<Rightarrow> Some p)"

definition display_area :: "'px env \<Rightarrow> 'px viewer \<Rightarrow> QSize" where
  "display_area env self = label_area env (window_size self)"

text \<open>
  The invariant in the words of the specification (section 3): fit is defined if and only
  if original is, and fit exceeds neither the 800 by 800 cap nor the display area.
\<close>

definition display_invariant :: "'px env \<Rightarrow> 'px viewer \<Rightarrow> bool" where
  "display_invariant env self =
     ((fit_bitmap self \<noteq> None) = (original_pixmap self \<noteq> None) \<and>
      (case fit_bitmap self of
         None \<Rightarrow> True
       | Some f \<Rightarrow>
           pixmap_width f \<le> 800 \<and> pixmap_height f \<le> 800 \<and>
           pixmap_width f \<le> width (display_area env self) \<and>
           pixmap_height f \<le> height (display_area env self)))"

text \<open>
  The invariant the handlers keep: fit is defined only if original is; the capped bitmap
  is within 800 by 800; fit is within the display area when that area has two positive
  dimensions.
\<close>

definition fit_invariant :: "'px env \<Rightarrow> 'px viewer \<Rightarrow> bool" where
  "fit_invariant env self =
     ((fit_bitmap self \<noteq> None \<longrightarrow> original_pixmap self \<noteq> None) \<and>
      (case scaled_pixmap self of
         None \<Rightarrow> True
       | Some c \<Rightarrow> pixmap_width c \<le> 800 \<and> pixmap_height c \<le> 800) \<and>
      (case fit_bitmap self of
         None \<Rightarrow> True
       | Some f \<Rightarrow>
           0 < width (display_area env self) \<and> 0 < height (display_area env self) \<longrightarrow>
           pixmap_width f \<le> width (display_area env self) \<and>
           pixmap_height f \<le> height (display_area env self)))"

definition fit_iff_original :: "'px viewer \<Rightarrow> bool" where
  "fit_iff_original self = ((fit_bitmap self \<noteq> None) = (original_pixmap self \<noteq> None))"

section \<open>A concrete world\<close>

text \<open>
  A world to run the handlers in: three URLs answer (a large image, a small image, a page
  that is no image), every other URL fails; one file exists; pixel data is a counter of the
  resamplings it went through; the layout leaves the label the window less its margins.
\<close>

definition demo_env :: "nat env" where
  "demo_env =
     \<lparr>clipboard_text = ''HTTP://HOST/SMALL.PNG'',
      http_get = (\<lambda>url.
         if url = ''http://host/big.png'' then Inr ''big''
         else if url = ''http://host/small.png'' \<or> url = ''HTTP://HOST/SMALL.PNG''
           then Inr ''small''
         else if url = ''http://host/page.png'' then Inr ''<html>''
         else Inl ''404 Client Error: Not Found''),
      pixmap_from_data = (\<lambda>d.
         if d = ''big'' then Pixmap 1600 1200 0
         else if d = ''small'' then Pixmap 100 50 0
         else NullPixmap),
      pixmap_from_file = (\<lambda>path.
         if path = ''/home/user/small.png'' then Pixmap 100 50 0 else NullPixmap),
      smooth_transform = (\<lambda>d w h. Suc d),
      label_area = (\<lambda>s. QSize (width s - 20) (height s - 200))\<rparr>"

text \<open>
  The viewer after the window was resized to 520 by 700 (the label is then 500 by 500)
  and the small image was loaded from its URL.
\<close>

definition small_shown :: "nat viewer" where
  "small_shown =
     new_viewer\<lparr>url_input := ''http://host/small.png'',
                image_label := LabelPixmap (Pixmap 500 250 1),
                original_pixmap := Some (Pixmap 100 50 0),
                scaled_pixmap := Some (Pixmap 100 50 0),
                window_size := QSize 520 700,
                net_log := [''http://host/small.png'']\<rparr>"

section \<open>Integer division and the scaled size\<close>

lemma div_floor_bounds:
  fixes a b :: int
  assumes "0 < b"
  shows "a div b * b \<le> a" and "a < a div b * b + b"
proof -
  have e: "a = a div b * b + a mod b" by simp
  have "0 \<le> a mod b" "a mod b < b" using assms by simp_all
  then show "a div b * b \<le> a" "a < a div b * b + b" using e by linarith+
qed

text \<open>The scaled size lies within the target box.\<close>

lemma size_scaled_fits:
  assumes "0 < w" "0 < h" "0 < tw" "0 < th"
  shows "0 \<le> width (size_scaled (QSize w h) (QSize tw th))
       \<and> width (size_scaled (QSize w h) (QSize tw th)) \<le> tw
       \<and> 0 \<le> height (size_scaled (QSize w h) (QSize tw th))
       \<and> height (size_scaled (QSize w h) (QSize tw th)) \<le> th"
proof (cases "th * w div h \<le> tw")
  case True
  have "0 \<le> th * w div h" using assms by (simp add: pos_imp_zdiv_nonneg_iff)
  with True assms show ?thesis by (simp add: size_scaled_def)
next
  case False
  then have "tw + 1 \<le> th * w div h" by simp
  then have "(tw + 1) * h \<le> th * w div h * h" using assms by simp
  also have "\<dots> \<le> th * w" using div_floor_bounds(1)[OF assms(2)] .
  finally have lt: "tw * h < th * w" using assms by (simp add: algebra_simps)
  have "tw * h div w < th"
  proof (rule ccontr)
    assume "\<not> tw * h div w < th"
    then have "th \<le> tw * h div w" by simp
    then have "th * w \<le> tw * h div w * w" using assms by simp
    also have "\<dots> \<le> tw * h" using div_floor_bounds(1)[OF assms(1)] .
    finally show False using lt by simp
  qed
  moreover have "0 \<le> tw * h div w" using assms by (simp add: pos_imp_zdiv_nonneg_iff)
  ultimately show ?thesis using False assms by (simp add: size_scaled_def)
qed

text \<open>
  With each side raised to one pixel at least, the cross product of the new size and the
  old one is off by less than the longer side of the old one: given one side, the other
  is within one pixel of the exact ratio.
\<close>

lemma size_scaled_ratio:
  assumes "0 < w" "0 < h" "0 < tw" "0 < th"
  shows "\<bar>max (width (size_scaled (QSize w h) (QSize tw th))) 1 * h
          - max (height (size_scaled (QSize w h) (QSize tw th))) 1 * w\<bar> < max w h"
proof (cases "th * w div h \<le> tw")
  case True
  let ?rw = "th * w div h"
  have n: "size_scaled (QSize w h) (QSize tw th) = QSize ?rw th"
    using True assms by (simp add: size_scaled_def)
  have b1: "?rw * h \<le> th * w" and b2: "th * w < ?rw * h + h"
    using div_floor_bounds[OF assms(2), of "th * w"] by simp_all
  have nn: "0 \<le> ?rw" using assms by (simp add: pos_imp_zdiv_nonneg_iff)
  have pos: "0 < th * w" using assms by simp
  have "\<bar>max ?rw 1 * h - th * w\<bar> < h"
  proof (cases "?rw = 0")
    case True
    then show ?thesis using b2 pos by simp
  next
    case False
    then have "max ?rw 1 = ?rw" using nn by simp
    then show ?thesis using b1 b2 by simp
  qed
  then show ?thesis using n assms by simp
next
  case False
  let ?rh = "tw * h div w"
  have n: "size_scaled (QSize w h) (QSize tw th) = QSize tw ?rh"
    using False assms by (simp add: size_scaled_def)
  have b1: "?rh * w \<le> tw * h" and b2: "tw * h < ?rh * w + w"
    using div_floor_bounds[OF assms(1), of "tw * h"] by simp_all
  have nn: "0 \<le> ?rh" using assms by (simp add: pos_imp_zdiv_nonneg_iff)
  have pos: "0 < tw * h" using assms by simp
  have "\<bar>tw * h - max ?rh 1 * w\<bar> < w"
  proof (cases "?rh = 0")
    case True
    then show ?thesis using b2 pos by simp
  next
    case False
    then have "max ?rh 1 = ?rh" using nn by simp
    then show ?thesis using b1 b2 by simp
  qed
  then show ?thesis using n assms by simp
qed

text \<open>A source that sticks out of the box on one side at least is never enlarged.\<close>

lemma size_scaled_no_upscale:
  assumes "0 < w" "0 < h" "0 < tw" "0 < th" "tw < w \<or> th < h"
  shows "width (size_scaled (QSize w h) (QSize tw th)) \<le> w
       \<and> height (size_scaled (QSize w h) (QSize tw th)) \<le> h"
proof (cases "th * w div h \<le> tw")
  case True
  let ?rw = "th * w div h"
  have n: "size_scaled (QSize w h) (QSize tw th) = QSize ?rw th"
    using True assms by (simp add: size_scaled_def)
  have b1: "?rw * h \<le> th * w" and b2: "th * w < ?rw * h + h"
    using div_floor_bounds[OF assms(2), of "th * w"] by simp_all
  have thh: "th \<le> h"
  proof (rule ccontr)
    assume "\<not> th \<le> h"
    then have hth: "h < th" by simp
    with assms have "tw < w" by simp
    have "h * w \<le> th * w" using hth assms by simp
    then have "h * w < (?rw + 1) * h" using b2 by (simp add: algebra_simps)
    then have "w * h < (?rw + 1) * h" by (simp add: mult.commute)
    then have "w < ?rw + 1" using assms(2) by (simp only: mult_less_cancel_right_pos)
    with True \<open>tw < w\<close> show False by simp
  qed
  have "?rw * h \<le> h * w"
  proof -
    have "th * w \<le> h * w" using thh assms by simp
    with b1 show ?thesis by simp
  qed
  then have "?rw * h \<le> w * h" by (simp add: mult.commute)
  then have "?rw \<le> w" using assms(2) by (simp only: mult_le_cancel_right_pos)
  with thh n show ?thesis by simp
next
  case False
  let ?rw = "th * w div h"
  let ?rh = "tw * h div w"
  have n: "size_scaled (QSize w h) (QSize tw th) = QSize tw ?rh"
    using False assms by (simp add: size_scaled_def)
  have a1: "?rw * h \<le> th * w"
    using div_floor_bounds[OF assms(2), of "th * w"] by simp
  have b1: "?rh * w \<le> tw * h"
    using div_floor_bounds[OF assms(1), of "tw * h"] by simp
  have tww: "tw \<le> w"
  proof (rule ccontr)
    assume "\<not> tw \<le> w"
    then have wtw: "w < tw" by simp
    with assms have "th < h" by simp
    have "?rw * h \<le> h * w"
    proof -
      have "th * w \<le> h * w" using \<open>th < h\<close> assms by simp
      with a1 show ?thesis by simp
    qed
    then have "?rw * h \<le> w * h" by (simp add: mult.commute)
    then have "?rw \<le> w" using assms(2) by (simp only: mult_le_cancel_right_pos)
    with False wtw show False by simp
  qed
  have "?rh * w \<le> h * w"
  proof -
    have "tw * h \<le> w * h" using tww assms by simp
    with b1 show ?thesis by (simp add: mult.commute)
  qed
  then have "?rh \<le> h" using assms(1) by (simp only: mult_le_cancel_right_pos)
  with tww n show ?thesis by simp
qed

section \<open>The scaled pixmap\<close>


lemma scaled_size:
  assumes "0 < w" "0 < h" "0 < width s" "0 < height s"
  shows "pixmap_width (scaled env (Pixmap w h d) s) = max (width (size_scaled (QSize w h) s)) 1
       \<and> pixmap_height (scaled env (Pixmap w h d) s) = max (height (size_scaled (QSize w h) s)) 1"
  using assms by (simp add: scaled_def isEmpty_def Let_def)

lemma scaled_within:
  assumes "0 < w" "0 < h" "0 < width s" "0 < height s"
  shows "1 \<le> pixmap_width (scaled env (Pixmap w h d) s)
       \<and> pixmap_width (scaled env (Pixmap w h d) s) \<le> width s
       \<and> 1 \<le> pixmap_height (scaled env (Pixmap w h d) s)
       \<and> pixmap_height (scaled env (Pixmap w h d) s) \<le> height s"
proof -
  obtain tw th where s: "s = QSize tw th" by (cases s)
  with assms have t: "0 < tw" "0 < th" by simp_all
  from size_scaled_fits[OF assms(1,2) t] scaled_size[OF assms, of env d] s t
  show ?thesis by simp
qed

lemma scaled_ratio:
  assumes "0 < w" "0 < h" "0 < width s" "0 < height s"
  shows "\<bar>pixmap_width (scaled env (Pixmap w h d) s) * h
          - pixmap_height (scaled env (Pixmap w h d) s) * w\<bar> < max w h"
proof -
  obtain tw th where s: "s = QSize tw th" by (cases s)
  with assms have t: "0 < tw" "0 < th" by simp_all
  from size_scaled_ratio[OF assms(1,2) t] scaled_size[OF assms, of env d] s
  show ?thesis by simp
qed

lemma scaled_no_upscale:
  assumes "0 < w" "0 < h" "0 < width s" "0 < height s" "width s < w \<or> height s < h"
  shows "pixmap_width (scaled env (Pixmap w h d) s) \<le> w
       \<and> pixmap_height (scaled env (Pixmap w h d) s) \<le> h"
proof -
  obtain tw th where s: "s = QSize tw th" by (cases s)
  with assms have t: "0 < tw" "0 < th" "tw < w \<or> th < h" by simp_all
  from size_scaled_no_upscale[OF assms(1,2) t] scaled_size[OF assms(1-4), of env d] s assms(1,2)
  show ?thesis by simp
qed

text \<open>
  Whatever the pixmap, null or not, its scaling to a box with two positive sides lies
  within the box.
\<close>

lemma scaled_any_within:
  assumes "0 < width s" "0 < height s"
  shows "pixmap_width (scaled env p s) \<le> width s \<and> pixmap_height (scaled env p s) \<le> height s"
proof (cases p)
  case NullPixmap
  with assms show ?thesis by (simp add: scaled_def)
next
  case (Pixmap w h d)
  show ?thesis
  proof (cases "0 < w \<and> 0 < h")
    case True
    with scaled_within[of w h s env d] assms Pixmap show ?thesis by simp
  next
    case False
    with assms Pixmap show ?thesis by (auto simp add: scaled_def)
  qed
qed

section \<open>What \<open>update_image\<close> stores and shows\<close>

lemma update_image_None:
  "original_pixmap self = None \<Longrightarrow> update_image env self = self"
  by (simp add: update_image_def)

lemma update_image_capped:
  assumes "original_pixmap self = Some orig"
  shows "scaled_pixmap (update_image env self) =
           Some (if 800 < pixmap_width orig \<or> 800 < pixmap_height orig
                 then scaled env orig (QSize 800 800) else orig)"
  using assms by (simp add: update_image_def Let_def)

lemma update_image_label:
  assumes "original_pixmap self = Some orig"
    and "scaled_pixmap (update_image env self) = Some c"
  shows "image_label (update_image env self) =
           (if 0 < width (label_area env (window_size self))
               \<and> 0 < height (label_area env (window_size self))
            then LabelPixmap (scaled env c (label_area env (window_size self)))
            else LabelPixmap c)"
proof -
  have "c = (if 800 < pixmap_width orig \<or> 800 < pixmap_height orig
             then scaled env orig (QSize 800 800) else orig)"
    using assms update_image_capped[OF assms(1), of env] by simp
  then show ?thesis using assms(1) by (simp add: update_image_def Let_def)
qed

lemma update_image_keeps:
  "original_pixmap (update_image env self) = original_pixmap self"
  "window_size (update_image env self) = window_size self"
  "url_input (update_image env self) = url_input self"
  "is_on_top (update_image env self) = is_on_top self"
  "stays_on_top_hint (update_image env self) = stays_on_top_hint self"
  "window_opacity (update_image env self) = window_opacity self"
  "opacity_slider (update_image env self) = opacity_slider self"
  "opacity_label (update_image env self) = opacity_label self"
  "toggle_top_button (update_image env self) = toggle_top_button self"
  "net_log (update_image env self) = net_log self"
  by (simp_all add: update_image_def Let_def split: option.splits)

lemma Ref_update_image_same: "Ref_update_image env self = update_image env self"
  by (simp add: Ref_update_image_def update_image_def)

section \<open>The cap stage\<close>

text \<open>
  Claim C1. The original is a bitmap of positive width and height. When neither side
  exceeds 800, the capped bitmap stored by \<open>update_image\<close> is the original itself. When a
  side exceeds 800, the capped bitmap has both sides between 1 and 800, no side longer
  than the original's (it is never scaled up), and the original's ratio up to rounding:
  the cross product of the two sizes is off by less than the original's longer side. Both
  variants of \<open>update_image\<close> store the same capped bitmap.
\<close>

theorem cap_stage:
  assumes "original_pixmap self = Some (Pixmap w h d)" and "0 < w" and "0 < h"
  shows "(w \<le> 800 \<and> h \<le> 800 \<longrightarrow>
            scaled_pixmap (update_image env self) = Some (Pixmap w h d)
          \<and> scaled_pixmap (Ref_update_image env self) = Some (Pixmap w h d))
       \<and> (800 < w \<or> 800 < h \<longrightarrow>
            (\<exists>c. scaled_pixmap (update_image env self) = Some c
                \<and> scaled_pixmap (Ref_update_image env self) = Some c
                \<and> 1 \<le> pixmap_width c \<and> pixmap_width c \<le> 800
                \<and> 1 \<le> pixmap_height c \<and> pixmap_height c \<le> 800
                \<and> pixmap_width c \<le> w \<and> pixmap_height c \<le> h
                \<and> \<bar>pixmap_width c * h - pixmap_height c * w\<bar> < max w h))"
proof (intro conjI impI)
  assume "w \<le> 800 \<and> h \<le> 800"
  then show "scaled_pixmap (update_image env self) = Some (Pixmap w h d)"
    using update_image_capped[OF assms(1), of env] by simp
  then show "scaled_pixmap (Ref_update_image env self) = Some (Pixmap w h d)"
    by (simp add: Ref_update_image_same)
next
  assume big: "800 < w \<or> 800 < h"
  let ?c = "scaled env (Pixmap w h d) (QSize 800 800)"
  have c: "scaled_pixmap (update_image env self) = Some ?c"
    using big update_image_capped[OF assms(1), of env] by simp
  have box: "0 < width (QSize 800 800)" "0 < height (QSize 800 800)" by simp_all
  have out: "width (QSize 800 800) < w \<or> height (QSize 800 800) < h" using big by simp
  from c scaled_within[OF assms(2,3) box, of env d] scaled_ratio[OF assms(2,3) box, of env d]
    scaled_no_upscale[OF assms(2,3) box out, of env d]
  show "\<exists>c. scaled_pixmap (update_image env self) = Some c
          \<and> scaled_pixmap (Ref_update_image env self) = Some c
          \<and> 1 \<le> pixmap_width c \<and> pixmap_width c \<le> 800
          \<and> 1 \<le> pixmap_height c \<and> pixmap_height c \<le> 800
          \<and> pixmap_width c \<le> w \<and> pixmap_height c \<le> h
          \<and> \<bar>pixmap_width c * h - pixmap_height c * w\<bar> < max w h"
    by (simp add: Ref_update_image_same)
qed

text \<open>
  The theorem at a small original, 100 by 50, and at a large one, 1600 by 1200.
\<close>

theorem cap_stage_witness:
  "scaled_pixmap (update_image demo_env small_shown) = Some (Pixmap 100 50 0)
   \<and> (\<exists>c. scaled_pixmap
             (update_image demo_env (small_shown\<lparr>original_pixmap := Some (Pixmap 1600 1200 0)\<rparr>))
             = Some c
         \<and> pixmap_width c \<le> 800 \<and> pixmap_height c \<le> 800
         \<and> pixmap_width c \<le> 1600 \<and> pixmap_height c \<le> 1200
         \<and> \<bar>pixmap_width c * 1200 - pixmap_height c * 1600\<bar> < 1600)"
proof -
  have a: "original_pixmap small_shown = Some (Pixmap 100 50 0)"
    by (simp add: small_shown_def new_viewer_def)
  have b: "original_pixmap (small_shown\<lparr>original_pixmap := Some (Pixmap 1600 1200 0)\<rparr>)
             = Some (Pixmap 1600 1200 0)" by simp
  have "scaled_pixmap (update_image demo_env small_shown) = Some (Pixmap 100 50 0)"
    using cap_stage[OF a, of demo_env] by simp
  moreover have "\<exists>c. scaled_pixmap
             (update_image demo_env (small_shown\<lparr>original_pixmap := Some (Pixmap 1600 1200 0)\<rparr>))
             = Some c
         \<and> pixmap_width c \<le> 800 \<and> pixmap_height c \<le> 800
         \<and> pixmap_width c \<le> 1600 \<and> pixmap_height c \<le> 1200
         \<and> \<bar>pixmap_width c * 1200 - pixmap_height c * 1600\<bar> < 1600"
    using cap_stage[OF b, of demo_env] by auto
  ultimately show ?thesis by simp
qed

text \<open>The scenario of the specification: 1600 by 1200 is capped to 800 by 600.\<close>

lemma demo_big_capped:
  "scaled demo_env (Pixmap 1600 1200 0) (QSize 800 800) = Pixmap 800 600 1"
  by (simp add: scaled_def size_scaled_def isEmpty_def demo_env_def)

section \<open>The fit stage\<close>

text \<open>The capped bitmap of an original with two positive sides has two positive sides.\<close>

lemma capped_positive:
  assumes "0 < w" "0 < h"
  shows "\<exists>cw ch cd.
           (if 800 < w \<or> 800 < h then scaled env (Pixmap w h d) (QSize 800 800)
            else Pixmap w h d) = Pixmap cw ch cd
         \<and> 0 < cw \<and> 0 < ch"
  using assms by (auto simp add: scaled_def isEmpty_def Let_def)

text \<open>
  Claim C2. The original is a bitmap of positive width and height and \<open>c\<close> is the capped
  bitmap that \<open>update_image\<close> stores. When the display area has two positive dimensions,
  the label shows a fit bitmap whose sides are between 1 and the sides of the display
  area, with the ratio of the capped bitmap up to rounding (the cross product of the two
  sizes is off by less than the capped bitmap's longer side). When the display area has a
  dimension equal to zero, the label shows the capped bitmap itself. Both variants show
  the same.
\<close>

theorem fit_stage:
  assumes "original_pixmap self = Some (Pixmap w h d)" and "0 < w" and "0 < h"
  shows "\<exists>c. scaled_pixmap (update_image env self) = Some c
           \<and> scaled_pixmap (Ref_update_image env self) = Some c
           \<and> image_label (Ref_update_image env self) = image_label (update_image env self)
           \<and> (0 < width (display_area env self) \<and> 0 < height (display_area env self) \<longrightarrow>
                (\<exists>f. image_label (update_image env self) = LabelPixmap f
                    \<and> 1 \<le> pixmap_width f \<and> pixmap_width f \<le> width (display_area env self)
                    \<and> 1 \<le> pixmap_height f \<and> pixmap_height f \<le> height (display_area env self)
                    \<and> \<bar>pixmap_width f * pixmap_height c - pixmap_height f * pixmap_width c\<bar>
                        < max (pixmap_width c) (pixmap_height c)))
           \<and> (width (display_area env self) = 0 \<or> height (display_area env self) = 0 \<longrightarrow>
                image_label (update_image env self) = LabelPixmap c)"
proof -
  let ?c = "if 800 < w \<or> 800 < h then scaled env (Pixmap w h d) (QSize 800 800) else Pixmap w h d"
  let ?a = "label_area env (window_size self)"
  have c: "scaled_pixmap (update_image env self) = Some ?c"
    using update_image_capped[OF assms(1), of env] by simp
  obtain cw ch cd where p: "?c = Pixmap cw ch cd" "0 < cw" "0 < ch"
    using capped_positive[OF assms(2,3), of env d] by blast
  have l: "image_label (update_image env self) =
           (if 0 < width ?a \<and> 0 < height ?a then LabelPixmap (scaled env ?c ?a) else LabelPixmap ?c)"
    using update_image_label[OF assms(1) c] .
  have pos: "0 < width ?a \<and> 0 < height ?a \<longrightarrow>
                (\<exists>f. image_label (update_image env self) = LabelPixmap f
                    \<and> 1 \<le> pixmap_width f \<and> pixmap_width f \<le> width ?a
                    \<and> 1 \<le> pixmap_height f \<and> pixmap_height f \<le> height ?a
                    \<and> \<bar>pixmap_width f * pixmap_height ?c - pixmap_height f * pixmap_width ?c\<bar>
                        < max (pixmap_width ?c) (pixmap_height ?c))"
  proof
    assume a: "0 < width ?a \<and> 0 < height ?a"
    then have a1: "0 < width ?a" and a2: "0 < height ?a" by simp_all
    have "image_label (update_image env self) = LabelPixmap (scaled env (Pixmap cw ch cd) ?a)"
      using l a p(1) by simp
    with scaled_within[OF p(2,3) a1 a2, of env cd] scaled_ratio[OF p(2,3) a1 a2, of env cd] p(1)
    show "\<exists>f. image_label (update_image env self) = LabelPixmap f
                    \<and> 1 \<le> pixmap_width f \<and> pixmap_width f \<le> width ?a
                    \<and> 1 \<le> pixmap_height f \<and> pixmap_height f \<le> height ?a
                    \<and> \<bar>pixmap_width f * pixmap_height ?c - pixmap_height f * pixmap_width ?c\<bar>
                        < max (pixmap_width ?c) (pixmap_height ?c)"
      by simp
  qed
  have zero: "width ?a = 0 \<or> height ?a = 0 \<longrightarrow> image_label (update_image env self) = LabelPixmap ?c"
    using l by auto
  from c pos zero show ?thesis
    unfolding display_area_def Ref_update_image_same by blast
qed

text \<open>
  The definitions to unfold when a handler runs in the concrete world.
\<close>

lemmas demo_defs = demo_env_def small_shown_def new_viewer_def scaled_def size_scaled_def
  isEmpty_def update_image_def loadFromData_def Let_def

text \<open>The state \<open>small_shown\<close> is reached from the constructor's state.\<close>

lemma small_shown_reachable:
  "load_image_from_url demo_env
     ((resize demo_env (QSize 520 700) new_viewer)\<lparr>url_input := ''http://host/small.png''\<rparr>)
   = small_shown"
  by (simp add: load_image_from_url_def resize_def resizeEvent_def demo_defs)

text \<open>
  The theorem at the small image in a display area of 500 by 500, and in one of width 0.
\<close>

theorem fit_stage_witness:
  "(\<exists>c f. scaled_pixmap (update_image demo_env small_shown) = Some c
        \<and> image_label (update_image demo_env small_shown) = LabelPixmap f
        \<and> pixmap_width f \<le> 500 \<and> pixmap_height f \<le> 500
        \<and> \<bar>pixmap_width f * pixmap_height c - pixmap_height f * pixmap_width c\<bar>
             < max (pixmap_width c) (pixmap_height c))
   \<and> (\<exists>c. scaled_pixmap (update_image demo_env (small_shown\<lparr>window_size := QSize 20 700\<rparr>))
            = Some c
        \<and> image_label (update_image demo_env (small_shown\<lparr>window_size := QSize 20 700\<rparr>))
            = LabelPixmap c)"
proof -
  have a: "original_pixmap small_shown = Some (Pixmap 100 50 0)"
    by (simp add: small_shown_def new_viewer_def)
  have b: "original_pixmap (small_shown\<lparr>window_size := QSize 20 700\<rparr>) = Some (Pixmap 100 50 0)"
    by (simp add: small_shown_def new_viewer_def)
  have da: "display_area demo_env small_shown = QSize 500 500"
    by (simp add: display_area_def demo_env_def small_shown_def new_viewer_def)
  have db: "display_area demo_env (small_shown\<lparr>window_size := QSize 20 700\<rparr>) = QSize 0 500"
    by (simp add: display_area_def demo_env_def small_shown_def new_viewer_def)
  have "\<exists>c f. scaled_pixmap (update_image demo_env small_shown) = Some c
        \<and> image_label (update_image demo_env small_shown) = LabelPixmap f
        \<and> pixmap_width f \<le> 500 \<and> pixmap_height f \<le> 500
        \<and> \<bar>pixmap_width f * pixmap_height c - pixmap_height f * pixmap_width c\<bar>
             < max (pixmap_width c) (pixmap_height c)"
    using fit_stage[OF a, of demo_env] da by auto
  moreover have "\<exists>c. scaled_pixmap (update_image demo_env (small_shown\<lparr>window_size := QSize 20 700\<rparr>))
            = Some c
        \<and> image_label (update_image demo_env (small_shown\<lparr>window_size := QSize 20 700\<rparr>))
            = LabelPixmap c"
    using fit_stage[OF b, of demo_env] db by auto
  ultimately show ?thesis by simp
qed

text \<open>
  The scenarios of the specification: 100 by 50 in an area of 500 by 500 is shown at 500 by
  250, scaled up; 1600 by 1200 in an area of 400 by 300 is shown at 400 by 300.
\<close>

lemma demo_small_fit:
  "image_label (update_image demo_env small_shown) = LabelPixmap (Pixmap 500 250 1)"
  by (simp add: demo_defs)

lemma demo_big_fit:
  "image_label (update_image demo_env
      (small_shown\<lparr>original_pixmap := Some (Pixmap 1600 1200 0), window_size := QSize 420 500\<rparr>))
   = LabelPixmap (Pixmap 400 300 2)"
  by (simp add: demo_defs)

section \<open>The two variants\<close>

text \<open>
  Claim C8. The function \<open>update_image\<close> of \<^verbatim>\<open>src/Ref.py\<close> and the one of
  \<^verbatim>\<open>src/4ref.py\<close> are the same function: for every world and every state, hence for
  every original bitmap and every display area, they store the same capped bitmap and
  show the same fit bitmap.
\<close>

theorem variants_same_update_image: "Ref_update_image = update_image"
  by (intro ext) (simp add: Ref_update_image_def update_image_def)

section \<open>Dropped files\<close>

text \<open>
  Claim C10. A drop with the URLs \<open>u # rest\<close> does what a drop with \<open>u\<close> alone does: the
  pixmap read from the local path of \<open>u\<close> becomes the original and the image is updated;
  \<open>rest\<close> is not looked at.
\<close>

theorem drop_first_only:
  "dropEvent env (u # rest) self = dropEvent env [u] self
   \<and> dropEvent env (u # rest) self =
       Inr (update_image env (self\<lparr>original_pixmap := Some (pixmap_from_file env (toLocalFile u))\<rparr>))
   \<and> drop_received env (u # rest) self = drop_received env [u] self"
  by (simp add: dropEvent_def drop_received_def dragEnterEvent_def)

section \<open>Reset\<close>

lemma str_int_100: "str_int 100 = ''100''"
  by code_simp

lemma str_int_25: "str_int 25 = ''25''"
  by code_simp

lemma change_opacity_100:
  "opacity_slider self = 100 \<Longrightarrow>
   change_opacity self = self\<lparr>window_opacity := 1, opacity_label := ''Window Opacity: 100%''\<rparr>"
  by (simp add: change_opacity_def str_int_100)

text \<open>
  Claim C7. Whatever the state before, \<open>reset_app\<close> returns the state the constructor
  builds: no original, no capped bitmap, the placeholder text in the image label (so no
  fit bitmap), always-on-top off in the field and in the window flags, opacity 1, the
  slider at 100, the opacity label at 100 percent, the URL field empty and the window at
  its default size, 480 by 360 in \<^verbatim>\<open>src/4ref.py\<close> and 400 by 300 in \<^verbatim>\<open>src/Ref.py\<close>.
  Of the fields of the model, only the caption of the toggle button, which the claim does
  not list, and the log of requests are left as they were.
\<close>

theorem reset_postcondition:
  "reset_app env self =
     new_viewer\<lparr>toggle_top_button := toggle_top_button self, net_log := net_log self\<rparr>
   \<and> Ref_reset_app env self =
     Ref_new_viewer\<lparr>toggle_top_button := toggle_top_button self, net_log := net_log self\<rparr>"
  by (cases self)
     (simp add: reset_app_def Ref_reset_app_def resize_def Ref_resize_def resizeEvent_def
        update_image_def Ref_update_image_def slider_setValue_def change_opacity_100
        new_viewer_def Ref_new_viewer_def Let_def)

section \<open>Opacity\<close>

text \<open>
  Claim C9. With the slider at \<open>v\<close>, between 10 and 100, \<open>change_opacity\<close> sets the window
  opacity to \<open>v / 100\<close>, a value between 0.1 and 1, and the label to the text
  \<^verbatim>\<open>Window Opacity: \<close>, the decimal digits of \<open>v\<close> and a percent sign; at 25 the opacity is
  0.25 and the label \<^verbatim>\<open>Window Opacity: 25%\<close>. The quotient \<^verbatim>\<open>value / 100.0\<close> of the source
  is read as the exact quotient.
\<close>

theorem opacity_changed:
  assumes "10 \<le> v" and "v \<le> 100" and "opacity_slider self = v"
  shows "window_opacity (change_opacity self) = real_of_int v / 100
       \<and> opacity_label (change_opacity self) = ''Window Opacity: '' @ str_int v @ ''%''
       \<and> 1 / 10 \<le> window_opacity (change_opacity self)
       \<and> window_opacity (change_opacity self) \<le> 1
       \<and> (v = 25 \<longrightarrow> window_opacity (change_opacity self) = 25 / 100
             \<and> opacity_label (change_opacity self) = ''Window Opacity: 25%'')"
  using assms by (auto simp add: change_opacity_def str_int_25)

theorem opacity_changed_witness:
  "window_opacity (change_opacity (new_viewer\<lparr>opacity_slider := 25\<rparr> :: nat viewer)) = 25 / 100
   \<and> opacity_label (change_opacity (new_viewer\<lparr>opacity_slider := 25\<rparr> :: nat viewer))
        = ''Window Opacity: 25%''"
  using opacity_changed[of 25 "new_viewer\<lparr>opacity_slider := 25\<rparr> :: nat viewer"]
  by (simp add: str_int_25)

section \<open>The clipboard gate\<close>

lemma endswith_suffix: "endswith s e = suffix e s"
  unfolding endswith_def suffix_def
  by (metis append_eq_conv_conj append_take_drop_id diff_add_inverse2 le_add2 length_append length_drop)

lemma load_net_log:
  "net_log (load_image_from_url env self) = net_log self @ [url_input self]"
  by (simp add: load_image_from_url_def Let_def update_image_keeps split: sum.splits)

text \<open>
  Claim C6. \<open>auto_fetch_url_from_clipboard\<close> puts the clipboard text into the URL field
  and loads from it when the lowercased text ends with one of the five extensions, and
  returns the state as it is otherwise: no error text, no change of any field. A request
  is issued if and only if the lowercased text ends with one of the extensions.
\<close>

theorem clipboard_gate:
  "auto_fetch_url_from_clipboard env self =
     (if \<exists>ext \<in> {''.png'', ''.jpg'', ''.jpeg'', ''.gif'', ''.svg''}.
           suffix ext (lower (clipboard_text env))
      then load_image_from_url env (self\<lparr>url_input := clipboard_text env\<rparr>)
      else self)
   \<and> (net_log (auto_fetch_url_from_clipboard env self) \<noteq> net_log self) =
       (\<exists>ext \<in> {''.png'', ''.jpg'', ''.jpeg'', ''.gif'', ''.svg''}.
           suffix ext (lower (clipboard_text env)))"
  by (simp add: auto_fetch_url_from_clipboard_def image_extensions_def endswith_suffix
        load_net_log Let_def)

lemma demo_gate: "endswith (lower ''HTTP://HOST/SMALL.PNG'') ''.png''"
  by code_simp

lemma demo_gate2:
  "\<not> list_ex (\<lambda>ext. endswith (lower ''meeting notes.txt'') ext) image_extensions"
  by code_simp

theorem clipboard_gate_witness:
  "net_log (auto_fetch_url_from_clipboard demo_env new_viewer) = [''HTTP://HOST/SMALL.PNG'']
   \<and> auto_fetch_url_from_clipboard (demo_env\<lparr>clipboard_text := ''meeting notes.txt''\<rparr>) new_viewer
       = new_viewer"
proof -
  have g: "suffix ''.png'' (lower (clipboard_text demo_env))"
    using demo_gate by (simp add: endswith_suffix demo_env_def)
  have n: "\<not> (\<exists>ext \<in> {''.png'', ''.jpg'', ''.jpeg'', ''.gif'', ''.svg''}.
           suffix ext (lower (clipboard_text (demo_env\<lparr>clipboard_text := ''meeting notes.txt''\<rparr>))))"
    using demo_gate2 by (simp add: endswith_suffix image_extensions_def)
  have "auto_fetch_url_from_clipboard demo_env new_viewer
          = load_image_from_url demo_env (new_viewer\<lparr>url_input := clipboard_text demo_env\<rparr>)"
    using clipboard_gate[of demo_env new_viewer] g by simp
  then have "net_log (auto_fetch_url_from_clipboard demo_env new_viewer) = [''HTTP://HOST/SMALL.PNG'']"
    by (simp add: load_net_log) (simp add: new_viewer_def demo_env_def)
  moreover have "auto_fetch_url_from_clipboard (demo_env\<lparr>clipboard_text := ''meeting notes.txt''\<rparr>) new_viewer
       = new_viewer"
    using clipboard_gate[of "demo_env\<lparr>clipboard_text := ''meeting notes.txt''\<rparr>" new_viewer] n
    by (simp del: insert_iff bex_simps)
  ultimately show ?thesis by simp
qed

section \<open>The invariant of the display state\<close>

text \<open>The capped bitmap of any original, null or not, is within 800 by 800.\<close>

lemma capped_within_cap:
  "pixmap_width (if 800 < pixmap_width orig \<or> 800 < pixmap_height orig
                 then scaled env orig (QSize 800 800) else orig) \<le> 800
   \<and> pixmap_height (if 800 < pixmap_width orig \<or> 800 < pixmap_height orig
                 then scaled env orig (QSize 800 800) else orig) \<le> 800"
  using scaled_any_within[of "QSize 800 800" env orig] by auto

lemma update_image_invariant:
  assumes "original_pixmap self = Some orig"
  shows "fit_invariant env (update_image env self) \<and> fit_iff_original (update_image env self)"
proof -
  define c where "c = (if 800 < pixmap_width orig \<or> 800 < pixmap_height orig
            then scaled env orig (QSize 800 800) else orig)"
  define a where "a = label_area env (window_size self)"
  have c: "scaled_pixmap (update_image env self) = Some c"
    using update_image_capped[OF assms, of env] by (simp add: c_def)
  have l: "image_label (update_image env self) =
             (if 0 < width a \<and> 0 < height a then LabelPixmap (scaled env c a)
              else LabelPixmap c)"
    using update_image_label[OF assms c] by (simp add: a_def)
  have o: "original_pixmap (update_image env self) = Some orig"
    using assms by (simp add: update_image_keeps)
  have d: "display_area env (update_image env self) = a"
    by (simp add: display_area_def update_image_keeps a_def)
  have cap: "pixmap_width c \<le> 800 \<and> pixmap_height c \<le> 800"
    using capped_within_cap[of orig env] by (simp add: c_def)
  show ?thesis
  proof (cases "0 < width a \<and> 0 < height a")
    case True
    then have "pixmap_width (scaled env c a) \<le> width a
             \<and> pixmap_height (scaled env c a) \<le> height a"
      using scaled_any_within[of a env c] by simp
    with True c l o d cap show ?thesis
      by (simp add: fit_invariant_def fit_iff_original_def fit_bitmap_def)
  next
    case False
    with c l o d cap show ?thesis
      by (auto simp add: fit_invariant_def fit_iff_original_def fit_bitmap_def)
  qed
qed

lemma load_invariant:
  assumes "fit_invariant env self"
  shows "fit_invariant env (load_image_from_url env self)"
proof (cases "http_get env (url_input self)")
  case (Inl e)
  with assms show ?thesis
    by (simp add: load_image_from_url_def Let_def fit_invariant_def fit_bitmap_def display_area_def)
next
  case (Inr b)
  then show ?thesis
    using update_image_invariant[of "self\<lparr>net_log := net_log self @ [url_input self],
        original_pixmap := Some (snd (loadFromData env b))\<rparr>" "snd (loadFromData env b)" env]
    by (simp add: load_image_from_url_def Let_def)
qed

lemma load_iff:
  assumes "http_get env (url_input self) = Inr b"
  shows "fit_iff_original (load_image_from_url env self)"
  using assms update_image_invariant[of "self\<lparr>net_log := net_log self @ [url_input self],
        original_pixmap := Some (snd (loadFromData env b))\<rparr>" "snd (loadFromData env b)" env]
  by (simp add: load_image_from_url_def Let_def)

lemma resize_invariant:
  assumes "fit_invariant env self"
  shows "fit_invariant env (resize env sz self) \<and> fit_iff_original (resize env sz self)"
proof (cases "original_pixmap self")
  case None
  then have "resize env sz self = self\<lparr>window_size := sz\<rparr>"
    by (simp add: resize_def resizeEvent_def update_image_None)
  with None assms show ?thesis
    by (simp add: fit_invariant_def fit_iff_original_def fit_bitmap_def display_area_def
          split: label_content.splits)
next
  case (Some orig)
  then show ?thesis
    using update_image_invariant[of "self\<lparr>window_size := sz\<rparr>" orig env]
    by (simp add: resize_def resizeEvent_def)
qed

lemma reset_state:
  "reset_app env self =
     new_viewer\<lparr>toggle_top_button := toggle_top_button self, net_log := net_log self\<rparr>"
  by (cases self)
     (simp add: reset_app_def resize_def resizeEvent_def update_image_def slider_setValue_def
        change_opacity_100 new_viewer_def Let_def)

lemma reset_invariant:
  "fit_invariant env (reset_app env self) \<and> fit_iff_original (reset_app env self)"
  by (simp add: reset_state new_viewer_def fit_invariant_def fit_iff_original_def fit_bitmap_def)

lemma drop_invariant:
  assumes "dropEvent env urls self = Inr s"
  shows "fit_invariant env s \<and> fit_iff_original s"
proof (cases urls)
  case Nil
  with assms show ?thesis by (simp add: dropEvent_def)
next
  case (Cons u rest)
  with assms have "s = update_image env
      (self\<lparr>original_pixmap := Some (pixmap_from_file env (toLocalFile u))\<rparr>)"
    by (simp add: dropEvent_def Let_def)
  then show ?thesis
    using update_image_invariant[of
        "self\<lparr>original_pixmap := Some (pixmap_from_file env (toLocalFile u))\<rparr>"
        "pixmap_from_file env (toLocalFile u)" env]
    by simp
qed

text \<open>
  Claim C3, as amended. The handlers keep \<open>fit_invariant\<close>: a load from a URL, whether it
  succeeds or fails, a drop, a resize and a reset each lead from a state where fit is
  defined only if original is, the capped bitmap is within 800 by 800 and fit is within a
  display area of two positive dimensions, to such a state again. After a load whose fetch
  succeeds, after a drop, a resize and a reset, fit is defined if and only if original is.
  The claim as stated does not hold: the fit stage scales up beyond 800 in a large display
  area, it is skipped in a display area with a zero dimension, and a failed fetch puts the
  error text in place of fit while original stays.
\<close>

theorem display_invariant_amended:
  assumes "fit_invariant env self"
  shows "fit_invariant env (load_image_from_url env self)
       \<and> (http_get env (url_input self) = Inr body \<longrightarrow>
            fit_iff_original (load_image_from_url env self))
       \<and> (dropEvent env urls self = Inr dropped \<longrightarrow>
            fit_invariant env dropped \<and> fit_iff_original dropped)
       \<and> fit_invariant env (resize env sz self) \<and> fit_iff_original (resize env sz self)
       \<and> fit_invariant env (reset_app env self) \<and> fit_iff_original (reset_app env self)"
  using load_invariant[OF assms] load_iff[of env self body] drop_invariant[of env urls self dropped]
    resize_invariant[OF assms, of sz] reset_invariant[of env self]
  by blast

text \<open>The amended invariant at the state \<open>small_shown\<close>, for each of the handlers.\<close>

lemma small_shown_invariant: "fit_invariant demo_env small_shown"
  by (simp add: fit_invariant_def fit_bitmap_def display_area_def demo_env_def small_shown_def
        new_viewer_def)

theorem display_invariant_amended_witness:
  "fit_invariant demo_env small_shown
   \<and> fit_invariant demo_env (load_image_from_url demo_env small_shown)
   \<and> fit_iff_original (load_image_from_url demo_env small_shown)
   \<and> dropEvent demo_env [LocalFile ''/home/user/small.png''] small_shown = Inr small_shown
   \<and> fit_iff_original small_shown
   \<and> fit_invariant demo_env (resize demo_env (QSize 1020 1200) small_shown)
   \<and> fit_iff_original (resize demo_env (QSize 1020 1200) small_shown)
   \<and> fit_invariant demo_env (reset_app demo_env small_shown)
   \<and> fit_iff_original (reset_app demo_env small_shown)"
proof -
  have g: "http_get demo_env (url_input small_shown) = Inr ''small''"
    by (simp add: demo_env_def small_shown_def new_viewer_def)
  have d: "dropEvent demo_env [LocalFile ''/home/user/small.png''] small_shown = Inr small_shown"
    by (simp add: dropEvent_def demo_defs)
  show ?thesis
    using display_invariant_amended[OF small_shown_invariant,
        of "''small''" "[LocalFile ''/home/user/small.png'']" small_shown "QSize 1020 1200"]
      g d small_shown_invariant
    by simp
qed

text \<open>
  The invariant in the words of the specification holds in \<open>small_shown\<close> and fails after
  a resize to a label of 1000 by 1000 (fit is 1000 by 500, beyond the cap), after a resize
  to a label of width 0 (fit is the capped bitmap, 100 by 50), and after a load from a URL
  that answers 404 (the label holds the error text, the original is still defined).
\<close>

theorem display_invariant_counterexample:
  "display_invariant demo_env small_shown
   \<and> \<not> display_invariant demo_env (resize demo_env (QSize 1020 1200) small_shown)
   \<and> \<not> display_invariant demo_env (resize demo_env (QSize 20 700) small_shown)
   \<and> \<not> display_invariant demo_env
          (load_image_from_url demo_env (small_shown\<lparr>url_input := ''http://host/gone.png''\<rparr>))"
  by (simp add: display_invariant_def fit_bitmap_def display_area_def resize_def resizeEvent_def
        load_image_from_url_def demo_defs)

lemma resize_scaled_up:
  "image_label (resize demo_env (QSize 1020 1200) small_shown) = LabelPixmap (Pixmap 1000 500 1)"
  by (simp add: resize_def resizeEvent_def demo_defs)

section \<open>Loads that fail\<close>

text \<open>
  When the fetch raises, the handler catches the exception: the label shows the text
  \<^verbatim>\<open>Error loading image: \<close> followed by the exception's text, a request is logged, and
  every other field, \<open>original_pixmap\<close> and \<open>scaled_pixmap\<close> included, is as before.
\<close>

lemma load_fetch_failure:
  assumes "http_get env (url_input self) = Inl e"
  shows "load_image_from_url env self =
           self\<lparr>net_log := net_log self @ [url_input self],
                image_label := LabelText (''Error loading image: '' @ e)\<rparr>"
  using assms by (simp add: load_image_from_url_def Let_def)

text \<open>
  Claim C4 does not hold for the decode stage. The URL \<^verbatim>\<open>http://host/page.png\<close> is
  fetched with success and its bytes are no image: \<^verbatim>\<open>loadFromData\<close> returns
  \<^verbatim>\<open>False\<close>, which the handler drops, and the null pixmap replaces the original
  that was stored (100 by 50) and is handed to the label; no error text is shown.
\<close>

theorem load_bad_bytes:
  "http_get demo_env ''http://host/page.png'' = Inr ''<html>''
   \<and> pixmap_from_data demo_env ''<html>'' = NullPixmap
   \<and> original_pixmap small_shown = Some (Pixmap 100 50 0)
   \<and> original_pixmap (load_image_from_url demo_env (small_shown\<lparr>url_input := ''http://host/page.png''\<rparr>))
       = Some NullPixmap
   \<and> image_label (load_image_from_url demo_env (small_shown\<lparr>url_input := ''http://host/page.png''\<rparr>))
       = LabelPixmap NullPixmap"
  by (simp add: load_image_from_url_def demo_defs)

text \<open>
  Claim C5 does not hold for a file that cannot be read. \<^verbatim>\<open>dropEvent\<close> has no error
  handling: the null pixmap that \<^verbatim>\<open>QPixmap(file_path)\<close> gives for the missing file
  replaces the original that was stored and is handed to the label; no error text is
  shown.
\<close>

theorem drop_unreadable_file:
  "pixmap_from_file demo_env ''/home/user/missing.png'' = NullPixmap
   \<and> drop_received demo_env [LocalFile ''/home/user/missing.png''] small_shown =
       Inr (small_shown\<lparr>original_pixmap := Some NullPixmap,
                        scaled_pixmap := Some NullPixmap,
                        image_label := LabelPixmap NullPixmap\<rparr>)"
  by (simp add: drop_received_def dragEnterEvent_def dropEvent_def demo_defs)

end
